theory Spec2Isabelle
  imports Complex_Main
begin

section \<open>SCHD dividend calculator: yield, income projection and price cache\<close>

text \<open>
  The development follows the last revision of \<^verbatim>\<open>src/App.tsx\<close> (the component that
  fetches and caches the share price), \<^verbatim>\<open>src/constants.ts\<close> and
  \<^verbatim>\<open>src/netlify/functions/get-schd-price.js\<close>.

  JavaScript numbers are IEEE doubles. In the yield and in the income projection finite
  numbers are idealised as exact reals (a decimal literal such as \<^verbatim>\<open>0.26\<close> denotes
  26/100), so the rounding errors of these operations are not modelled. The growth
  statistic is turned into text by \<^verbatim>\<open>toFixed(2)\<close>, where an error in the last place of
  the number can change the text, so its arithmetic is modelled in double precision,
  operation by operation. The values that are not finite numbers and that the code can
  meet (\<^verbatim>\<open>NaN\<close>, the infinities, \<^verbatim>\<open>undefined\<close>, strings) are part of the value types of
  the price pipeline below, where they decide which branch is taken.
\<close>

subsection \<open>Dividend history (constants.ts, types.ts)\<close>

record DividendData =
  date :: string
  dividend :: real

definition DIVIDEND_HISTORY :: "DividendData list" where
  "DIVIDEND_HISTORY =
    [\<lparr>date = ''6/25/2025'', dividend = 0.26\<rparr>,
     \<lparr>date = ''3/26/2025'', dividend = 0.25\<rparr>,
     \<lparr>date = ''12/11/2024'', dividend = 0.26\<rparr>,
     \<lparr>date = ''9/25/2024'', dividend = 0.25\<rparr>,
     \<lparr>date = ''6/26/2024'', dividend = 0.27\<rparr>,
     \<lparr>date = ''3/20/2024'', dividend = 0.20\<rparr>,
     \<lparr>date = ''12/6/2023'', dividend = 0.25\<rparr>,
     \<lparr>date = ''9/20/2023'', dividend = 0.22\<rparr>,
     \<lparr>date = ''6/21/2023'', dividend = 0.22\<rparr>,
     \<lparr>date = ''3/22/2023'', dividend = 0.20\<rparr>,
     \<lparr>date = ''12/7/2022'', dividend = 0.23\<rparr>,
     \<lparr>date = ''9/21/2022'', dividend = 0.21\<rparr>,
     \<lparr>date = ''6/22/2022'', dividend = 0.23\<rparr>,
     \<lparr>date = ''3/23/2022'', dividend = 0.17\<rparr>,
     \<lparr>date = ''12/8/2021'', dividend = 0.21\<rparr>,
     \<lparr>date = ''9/22/2021'', dividend = 0.20\<rparr>,
     \<lparr>date = ''6/23/2021'', dividend = 0.18\<rparr>,
     \<lparr>date = ''3/24/2021'', dividend = 0.17\<rparr>,
     \<lparr>date = ''12/10/2020'', dividend = 0.20\<rparr>,
     \<lparr>date = ''9/23/2020'', dividend = 0.18\<rparr>]"

text \<open>
  \<^verbatim>\<open>pastDividends = DIVIDEND_HISTORY.filter(d => new Date(d.date) <= today)\<close>.
  \<^verbatim>\<open>new Date(string)\<close> is a built-in whose result for the format \<^verbatim>\<open>M/D/YYYY\<close> depends
  on the engine and on the local time zone, so it is a parameter: \<open>parseDate s\<close> is the
  time value in milliseconds, or \<open>None\<close> for an Invalid Date, whose time value is
  \<^verbatim>\<open>NaN\<close> and which therefore fails the comparison.
\<close>

definition pastDividends ::
    "(string \<Rightarrow> int option) \<Rightarrow> int \<Rightarrow> DividendData list \<Rightarrow> DividendData list" where
  "pastDividends parseDate today history =
     filter (\<lambda>d. case parseDate (date d) of None \<Rightarrow> False | Some t \<Rightarrow> t \<le> today) history"

text \<open>\<^verbatim>\<open>xs.reduce((acc, curr) => acc + curr.dividend, 0)\<close>\<close>

definition sumDividends :: "DividendData list \<Rightarrow> real" where
  "sumDividends xs = foldl (\<lambda>acc curr. acc + dividend curr) 0 xs"

subsection \<open>Yield recomputation (the effect on sharePrice, yieldMethod, pastDividends)\<close>

datatype YieldMethod = forward | ttm

text \<open>
  The effect reads the state \<^verbatim>\<open>sharePrice\<close>, \<^verbatim>\<open>yieldMethod\<close>, the full history and
  the memoised \<^verbatim>\<open>pastDividends\<close>, and calls \<^verbatim>\<open>setDividendYield\<close> only inside
  \<^verbatim>\<open>if (sharePrice > 0)\<close>. The result is the value of the state \<^verbatim>\<open>dividendYield\<close>
  after the effect; the last argument is its value before.
\<close>

definition annualDividendPerShare ::
    "YieldMethod \<Rightarrow> DividendData list \<Rightarrow> DividendData list \<Rightarrow> real" where
  "annualDividendPerShare yieldMethod history past =
     (if yieldMethod = forward then
        (case history of [] \<Rightarrow> 0 | d # _ \<Rightarrow> dividend d * 4)
      else
        (if length past \<ge> 4 then sumDividends (take 4 past) else 0))"

definition dividendYieldEffect ::
    "real \<Rightarrow> YieldMethod \<Rightarrow> DividendData list \<Rightarrow> DividendData list \<Rightarrow> real \<Rightarrow> real" where
  "dividendYieldEffect sharePrice yieldMethod history past dividendYield =
     (if sharePrice > 0 then
        (let a = annualDividendPerShare yieldMethod history past in
         if a > 0 then (a / sharePrice) * 100 else 0)
      else dividendYield)"

text \<open>
  The yield calculator as a function of its inputs: the effect run on a history and on
  the past dividends derived from that history at the time \<open>asOf\<close>.
\<close>

definition computeYield ::
    "(string \<Rightarrow> int option) \<Rightarrow> real \<Rightarrow> real \<Rightarrow> YieldMethod \<Rightarrow> DividendData list \<Rightarrow> int \<Rightarrow> real" where
  "computeYield parseDate dividendYield price method history asOf =
     dividendYieldEffect price method history (pastDividends parseDate asOf history) dividendYield"

subsection \<open>Income projection (calculateDividends)\<close>

record PeriodicIncome =
  annually :: real
  quarterly :: real
  monthly :: real
  daily :: real

definition calculateDividends :: "real \<Rightarrow> real \<Rightarrow> real \<Rightarrow> PeriodicIncome" where
  "calculateDividends investment sharePrice dividendYield =
     (if investment \<le> 0 \<or> sharePrice \<le> 0 \<or> dividendYield \<le> 0 then
        \<lparr>annually = 0, quarterly = 0, monthly = 0, daily = 0\<rparr>
      else
        (let yearly = investment * (dividendYield / 100) in
         \<lparr>annually = yearly, quarterly = yearly / 4, monthly = yearly / 12,
          daily = yearly / 365\<rparr>))"

subsection \<open>Double-precision arithmetic\<close>

text \<open>
  A double is a finite number, an infinity (\<open>Infinite True\<close> is the positive one) or
  \<^verbatim>\<open>NaN\<close>. A finite double is represented by its value; the sign of a zero is not kept.
  \<open>toDouble\<close> is the rounding of IEEE 754 to the nearest double, ties to the even
  significand: the significand has 53 bits, the exponent of the leading bit is at least
  -1022 (below that the doubles are the multiples of 2 to the -1074), and a result of
  2 to the 1024 or more is an infinity.
\<close>

datatype double = Finite real | Infinite bool | NotANumber

definition pow2 :: "int \<Rightarrow> real" where
  "pow2 k = (if 0 \<le> k then 2 ^ nat k else 1 / 2 ^ nat (- k))"

definition roundHalfEven :: "real \<Rightarrow> int" where
  "roundHalfEven q =
     (let f = \<lfloor>q\<rfloor>; r = q - of_int f
      in if r < 1 / 2 then f else if 1 / 2 < r then f + 1 else if even f then f else f + 1)"

definition toDouble :: "real \<Rightarrow> double" where
  "toDouble x =
     (if x = 0 then Finite 0
      else
        (let e = max \<lfloor>log 2 \<bar>x\<bar>\<rfloor> (- 1022);
             ulp = pow2 (e - 52);
             y = of_int (roundHalfEven (\<bar>x\<bar> / ulp)) * ulp
         in if pow2 1024 \<le> y then Infinite (0 < x) else Finite (if x < 0 then - y else y)))"

text \<open>
  The operations \<^verbatim>\<open>+\<close>, \<^verbatim>\<open>-\<close>, \<^verbatim>\<open>*\<close>, \<^verbatim>\<open>/\<close>: the exact result rounded once, and the
  rules of IEEE 754 for the infinities and \<^verbatim>\<open>NaN\<close>. A finite number divided by a zero
  is an infinity whose sign depends on the sign of the zero, which is not kept; the
  positive zero is assumed there (\<^verbatim>\<open>dividendGrowth\<close> never divides by a zero).
\<close>

fun dadd :: "double \<Rightarrow> double \<Rightarrow> double" where
  "dadd (Finite x) (Finite y) = toDouble (x + y)"
| "dadd NotANumber _ = NotANumber"
| "dadd _ NotANumber = NotANumber"
| "dadd (Infinite s) (Infinite t) = (if s = t then Infinite s else NotANumber)"
| "dadd (Infinite s) (Finite _) = Infinite s"
| "dadd (Finite _) (Infinite t) = Infinite t"

fun dneg :: "double \<Rightarrow> double" where
  "dneg (Finite x) = Finite (- x)"
| "dneg (Infinite s) = Infinite (\<not> s)"
| "dneg NotANumber = NotANumber"

definition dsub :: "double \<Rightarrow> double \<Rightarrow> double" where
  "dsub a b = dadd a (dneg b)"

fun dmul :: "double \<Rightarrow> double \<Rightarrow> double" where
  "dmul (Finite x) (Finite y) = toDouble (x * y)"
| "dmul NotANumber _ = NotANumber"
| "dmul _ NotANumber = NotANumber"
| "dmul (Infinite s) (Infinite t) = Infinite (s = t)"
| "dmul (Infinite s) (Finite y) = (if y = 0 then NotANumber else Infinite (s = (0 < y)))"
| "dmul (Finite x) (Infinite t) = (if x = 0 then NotANumber else Infinite (t = (0 < x)))"

fun ddiv :: "double \<Rightarrow> double \<Rightarrow> double" where
  "ddiv (Finite x) (Finite y) =
     (if y = 0 then (if x = 0 then NotANumber else Infinite (0 < x)) else toDouble (x / y))"
| "ddiv NotANumber _ = NotANumber"
| "ddiv _ NotANumber = NotANumber"
| "ddiv (Infinite s) (Infinite t) = NotANumber"
| "ddiv (Infinite s) (Finite y) = Infinite (s = (0 \<le> y))"
| "ddiv (Finite x) (Infinite t) = Finite 0"

text \<open>
  \<^verbatim>\<open>x.toFixed(2)\<close> on a finite double below 10 to the 21 in magnitude returns the decimal
  text with two fraction digits nearest to the value of the double, the larger magnitude
  on a tie; on a larger double the text of the number itself; on an infinity and on
  \<^verbatim>\<open>NaN\<close> their names. The text is represented by the number it denotes.
\<close>

definition toFixed2 :: "real \<Rightarrow> real" where
  "toFixed2 x =
     (if x < 0 then - (of_int \<lfloor>(- x) * 100 + 1 / 2\<rfloor> / 100)
      else of_int \<lfloor>x * 100 + 1 / 2\<rfloor> / 100)"

fun toFixed :: "double \<Rightarrow> double" where
  "toFixed (Finite x) = Finite (if \<bar>x\<bar> < 10 ^ 21 then toFixed2 x else x)"
| "toFixed (Infinite s) = Infinite s"
| "toFixed NotANumber = NotANumber"

subsection \<open>Growth statistic (dividendGrowth)\<close>

text \<open>
  \<^verbatim>\<open>xs.reduce((acc, curr) => acc + curr.dividend, 0)\<close> in double precision. The field
  \<open>dividend\<close> holds the decimal as written; the number the engine holds is its rounding
  to a double.
\<close>

definition sumDividendsDouble :: "DividendData list \<Rightarrow> double" where
  "sumDividendsDouble xs =
     foldl (\<lambda>acc curr. dadd acc (toDouble (dividend curr))) (Finite 0) xs"

text \<open>
  \<^verbatim>\<open>dividendGrowth\<close> returns \<^verbatim>\<open>'N/A'\<close> or the text that \<^verbatim>\<open>toFixed(2)\<close> makes of
  \<^verbatim>\<open>(lastYearDividend - prevYearDividend) / prevYearDividend * 100\<close>.
\<close>

datatype GrowthStat = NotAvailable | Percent double

definition dividendGrowth :: "DividendData list \<Rightarrow> GrowthStat" where
  "dividendGrowth past =
     (if length past < 8 then NotAvailable
      else
        (let lastYearDividend = sumDividendsDouble (take 4 past);
             prevYearDividend = sumDividendsDouble (take 4 (drop 4 past))
         in if prevYearDividend = Finite 0 then NotAvailable
            else Percent (toFixed (dmul (ddiv (dsub lastYearDividend prevYearDividend)
                                              prevYearDividend) (Finite 100)))))"

subsection \<open>Market hours (isMarketOpen)\<close>

text \<open>
  \<^verbatim>\<open>isMarketOpen\<close> reads the clock, converts it with
  \<^verbatim>\<open>now.toLocaleString('en-US', {timeZone: 'America/New_York'})\<close>, parses the text back
  with \<^verbatim>\<open>new Date\<close> and reads \<^verbatim>\<open>getDay\<close>, \<^verbatim>\<open>getHours\<close>, \<^verbatim>\<open>getMinutes\<close>. The
  conversion belongs to the engine, so it is a parameter. It can raise (an engine without
  the zone raises a RangeError), which the \<^verbatim>\<open>catch\<close> turns into \<^verbatim>\<open>true\<close>; it can yield a
  text that \<^verbatim>\<open>new Date\<close> does not recognise, an Invalid Date whose three getters return
  \<^verbatim>\<open>NaN\<close>, so that both tests on the day and both comparisons of the time are false;
  or it yields a day of the week (0 is Sunday, 6 is Saturday), an hour and a minute.
\<close>

datatype EasternTime = InvalidDate | EasternTime nat nat nat

datatype Conversion = ConversionThrows | Converted EasternTime

definition isMarketOpen :: "(int \<Rightarrow> Conversion) \<Rightarrow> int \<Rightarrow> bool" where
  "isMarketOpen toEastern now =
     (case toEastern now of
        ConversionThrows \<Rightarrow> True
      | Converted InvalidDate \<Rightarrow> False
      | Converted (EasternTime day hour minute) \<Rightarrow>
          if day = 0 \<or> day = 6 then False
          else
            (let timeInMinutes = hour * 60 + minute;
                 marketOpen = 9 * 60 + 30;
                 marketClose = 16 * 60
             in timeInMinutes \<ge> marketOpen \<and> timeInMinutes < marketClose))"

subsection \<open>Values, strings and the built-in parsers\<close>

text \<open>
  The values \<^verbatim>\<open>JSON.parse\<close> can return, and the values the state \<^verbatim>\<open>sharePrice\<close> can
  hold at run time: a value taken from a parsed body or returned by \<^verbatim>\<open>parseFloat\<close>,
  or \<^verbatim>\<open>NaN\<close>, which JSON cannot carry. \<open>JNum x\<close> is a finite double of value \<open>x\<close>;
  the conversion of a numeric text to a double is the parser's and has happened before:
  a literal beyond the range of the doubles, such as \<^verbatim>\<open>1e400\<close>, is parsed to an
  infinity (\<open>JInfinity True\<close> is the positive one) and one too small, such as
  \<^verbatim>\<open>1e-400\<close>, to 0. An object is its list of members in source order.
\<close>

datatype json =
    JNull | JBool bool | JNum real | JInfinity bool | JStr string | JArr "json list"
  | JObj "(string \<times> json) list"

datatype jsvalue = Json json | NaN

text \<open>Truthiness, as tested by \<^verbatim>\<open>if (data.price)\<close>.\<close>

fun truthy :: "json \<Rightarrow> bool" where
  "truthy JNull = False"
| "truthy (JBool b) = b"
| "truthy (JNum x) = (x \<noteq> 0)"
| "truthy (JInfinity _) = True"
| "truthy (JStr s) = (s \<noteq> [])"
| "truthy (JArr _) = True"
| "truthy (JObj _) = True"

text \<open>
  Reading a member \<^verbatim>\<open>data.k\<close>, for the keys used here (\<^verbatim>\<open>price\<close>, \<^verbatim>\<open>c\<close>), which no
  prototype defines: a TypeError on \<^verbatim>\<open>null\<close>, \<^verbatim>\<open>undefined\<close> on a value without the
  member, and the last of several members of the same name.
\<close>

datatype property = TypeError | Undefined | Value json

fun getProp :: "json \<Rightarrow> string \<Rightarrow> property" where
  "getProp JNull k = TypeError"
| "getProp (JObj members) k =
     (case map_of (rev members) k of None \<Rightarrow> Undefined | Some v \<Rightarrow> Value v)"
| "getProp _ k = Undefined"

text \<open>
  \<^verbatim>\<open>parseInt(s, 10)\<close> and \<^verbatim>\<open>parseFloat(s)\<close> on strings of ASCII characters: leading
  white space is skipped, a sign is read, then the longest prefix that is a decimal
  literal; \<^verbatim>\<open>NaN\<close> (\<open>None\<close> for \<open>parseInt10\<close>) when there is none. The number read is
  the exact decimal.
\<close>

definition isWhiteSpace :: "char \<Rightarrow> bool" where
  "isWhiteSpace c = (c \<in> set [CHR 0x20, CHR 0x09, CHR 0x0A, CHR 0x0B, CHR 0x0C, CHR 0x0D])"

definition isDigit :: "char \<Rightarrow> bool" where
  "isDigit c = (48 \<le> (of_char c :: nat) \<and> (of_char c :: nat) \<le> 57)"

definition digitsValue :: "string \<Rightarrow> nat" where
  "digitsValue ds = foldl (\<lambda>a c. a * 10 + (of_char c - 48)) 0 ds"

fun splitSign :: "string \<Rightarrow> bool \<times> string" where
  "splitSign [] = (False, [])"
| "splitSign (c # cs) =
     (if c = CHR ''-'' then (True, cs) else if c = CHR ''+'' then (False, cs) else (False, c # cs))"

definition parseInt10 :: "string \<Rightarrow> int option" where
  "parseInt10 s =
     (let (neg, u) = splitSign (dropWhile isWhiteSpace s);
          ds = takeWhile isDigit u
      in if ds = [] then None
         else Some (if neg then - int (digitsValue ds) else int (digitsValue ds)))"

definition exponentFactor :: "string \<Rightarrow> real" where
  "exponentFactor r =
     (case r of
        [] \<Rightarrow> 1
      | c # r' \<Rightarrow>
          if c = CHR ''e'' \<or> c = CHR ''E'' then
            (let (eneg, ed) = splitSign r';
                 ds = takeWhile isDigit ed
             in if ds = [] then 1
                else if eneg then 1 / 10 ^ digitsValue ds else 10 ^ digitsValue ds)
          else 1)"

definition parseFloat :: "string \<Rightarrow> jsvalue" where
  "parseFloat s =
     (let (neg, u) = splitSign (dropWhile isWhiteSpace s) in
      if take 8 u = ''Infinity'' then Json (JInfinity (\<not> neg))
      else
        (let ip = takeWhile isDigit u;
             r1 = dropWhile isDigit u;
             (fp, r2) = (case r1 of
                           [] \<Rightarrow> ([], r1)
                         | c # r \<Rightarrow>
                             if c = CHR ''.'' then (takeWhile isDigit r, dropWhile isDigit r)
                             else ([], r1))
         in if ip = [] \<and> fp = [] then NaN
            else
              (let v = (real (digitsValue ip) + real (digitsValue fp) / 10 ^ length fp)
                         * exponentFactor r2
               in Json (JNum (if neg then - v else v)))))"

text \<open>\<^verbatim>\<open>Date.now().toString()\<close>: an integer in decimal.\<close>

fun showNat :: "nat \<Rightarrow> string" where
  "showNat n =
     (if n < 10 then [char_of (48 + n)] else showNat (n div 10) @ [char_of (48 + n mod 10)])"

declare showNat.simps [simp del]

definition showInt :: "int \<Rightarrow> string" where
  "showInt i = (if i < 0 then CHR ''-'' # showNat (nat (- i)) else showNat (nat i))"

text \<open>
  \<^verbatim>\<open>data.price.toString()\<close> on a truthy value. The text of a finite number is the
  engine's shortest decimal for the double and never fails; the texts of the other
  values (and the TypeError of an object whose member \<^verbatim>\<open>toString\<close> hides the method) are
  left to the engine as well. Both are parameters.
\<close>

record builtins =
  numberToString :: "real \<Rightarrow> string"
  otherToString :: "json \<Rightarrow> string option"

definition priceToString :: "builtins \<Rightarrow> json \<Rightarrow> string option" where
  "priceToString env v =
     (case v of
        JNum x \<Rightarrow> Some (numberToString env x)
      | JInfinity positive \<Rightarrow> Some (if positive then ''Infinity'' else ''-Infinity'')
      | _ \<Rightarrow> otherToString env v)"

subsection \<open>Price cache and price fetch (the mount effect of App)\<close>

definition CACHE_KEY_PRICE :: string where
  "CACHE_KEY_PRICE = ''schd_price''"

definition CACHE_KEY_TIMESTAMP :: string where
  "CACHE_KEY_TIMESTAMP = ''schd_price_timestamp''"

definition CACHE_DURATION_TRADING_MIN :: real where
  "CACHE_DURATION_TRADING_MIN = 15"

definition CACHE_DURATION_CLOSED_HRS :: real where
  "CACHE_DURATION_CLOSED_HRS = 24 * 60"

text \<open>
  The state the effect works on: three state variables of the component and the
  browser's \<^verbatim>\<open>localStorage\<close>, taken to be an always available map from keys to
  strings (a storage that raises on access is not modelled).
\<close>

record price_state =
  sharePrice :: jsvalue
  isPriceLoading :: bool
  priceError :: "string option"
  localStorage :: "string \<Rightarrow> string option"

text \<open>
  What \<^verbatim>\<open>await fetch(url)\<close> followed by \<^verbatim>\<open>response.json()\<close> can bring: a rejected
  promise, or a response with its status and a body that cannot be read to its end, or
  is read and does not parse as JSON, or parses. \<^verbatim>\<open>response.ok\<close> is true for the
  statuses 200 to 299.
\<close>

datatype http_body = Unreadable | Malformed | Parsed json

datatype fetch_outcome = NetworkError | Response int http_body

definition ok :: "int \<Rightarrow> bool" where
  "ok status = (200 \<le> status \<and> status \<le> 299)"

text \<open>The \<^verbatim>\<open>catch\<close> block followed by the \<^verbatim>\<open>finally\<close> block.\<close>

definition fetchFailed :: "price_state \<Rightarrow> price_state" where
  "fetchFailed st =
     st\<lparr>priceError := Some ''Could not fetch live price.'',
        sharePrice := Json (JNum 27),
        isPriceLoading := False\<rparr>"

text \<open>
  \<^verbatim>\<open>fetchSharePrice\<close>. Every \<^verbatim>\<open>throw\<close> and every exception of the \<^verbatim>\<open>try\<close> block
  reaches the \<^verbatim>\<open>catch\<close>: the rejected fetch, the response that is not ok (whether its
  error body parses or not), the body that cannot be read or does not parse, the member
  read on \<^verbatim>\<open>null\<close>, the falsy price, and a failing \<^verbatim>\<open>toString\<close> after the price was
  set.
\<close>

definition fetchSharePrice ::
    "builtins \<Rightarrow> int \<Rightarrow> fetch_outcome \<Rightarrow> price_state \<Rightarrow> price_state" where
  "fetchSharePrice env fetchedAt outcome st =
     (let st1 = st\<lparr>isPriceLoading := True, priceError := None\<rparr> in
      case outcome of
        NetworkError \<Rightarrow> fetchFailed st1
      | Response status b \<Rightarrow>
          if \<not> ok status then fetchFailed st1
          else
            (case b of
               Unreadable \<Rightarrow> fetchFailed st1
             | Malformed \<Rightarrow> fetchFailed st1
             | Parsed data \<Rightarrow>
                 (case getProp data ''price'' of
                    TypeError \<Rightarrow> fetchFailed st1
                  | Undefined \<Rightarrow> fetchFailed st1
                  | Value price \<Rightarrow>
                      if truthy price then
                        (let st2 = st1\<lparr>sharePrice := Json price\<rparr> in
                         case priceToString env price of
                           None \<Rightarrow> fetchFailed st2
                         | Some s \<Rightarrow>
                             st2\<lparr>localStorage :=
                                   (localStorage st2)
                                     (CACHE_KEY_PRICE \<mapsto> s,
                                      CACHE_KEY_TIMESTAMP \<mapsto> showInt fetchedAt),
                                 isPriceLoading := False\<rparr>)
                      else fetchFailed st1)))"

text \<open>
  The freshness test of \<^verbatim>\<open>managePriceFetch\<close> for a timestamp that parsed:
  \<^verbatim>\<open>ageInMinutes < cacheDuration\<close>.
\<close>

definition isValid :: "int \<Rightarrow> int \<Rightarrow> bool \<Rightarrow> bool" where
  "isValid timestamp now marketOpen =
     (let ageInMinutes = real_of_int (now - timestamp) / (1000 * 60);
          cacheDuration = (if marketOpen then CACHE_DURATION_TRADING_MIN
                           else CACHE_DURATION_CLOSED_HRS)
      in ageInMinutes < cacheDuration)"

text \<open>
  \<^verbatim>\<open>managePriceFetch\<close>: the cached price is taken when both items are present and not
  empty (\<^verbatim>\<open>cachedPrice && cachedTimestamp\<close>) and the age is below the duration. A
  timestamp that does not parse is \<^verbatim>\<open>NaN\<close>, the age is \<^verbatim>\<open>NaN\<close> and the comparison is
  false. The price is whatever \<^verbatim>\<open>parseFloat\<close> returns.
\<close>

datatype cache_decision = UseCached jsvalue | FetchFresh

definition cacheDecision ::
    "(int \<Rightarrow> Conversion) \<Rightarrow> int \<Rightarrow> (string \<Rightarrow> string option) \<Rightarrow> cache_decision" where
  "cacheDecision toEastern now store =
     (case store CACHE_KEY_PRICE of
        None \<Rightarrow> FetchFresh
      | Some cachedPrice \<Rightarrow>
          (case store CACHE_KEY_TIMESTAMP of
             None \<Rightarrow> FetchFresh
           | Some cachedTimestamp \<Rightarrow>
               if cachedPrice \<noteq> [] \<and> cachedTimestamp \<noteq> [] then
                 (let price = parseFloat cachedPrice in
                  case parseInt10 cachedTimestamp of
                    None \<Rightarrow> FetchFresh
                  | Some timestamp \<Rightarrow>
                      if isValid timestamp now (isMarketOpen toEastern now)
                      then UseCached price else FetchFresh)
               else FetchFresh))"

definition managePriceFetch ::
    "builtins \<Rightarrow> (int \<Rightarrow> Conversion) \<Rightarrow> int \<Rightarrow> int \<Rightarrow> fetch_outcome \<Rightarrow> price_state
       \<Rightarrow> price_state" where
  "managePriceFetch env toEastern now fetchedAt outcome st =
     (case cacheDecision toEastern now (localStorage st) of
        UseCached price \<Rightarrow> st\<lparr>sharePrice := price, isPriceLoading := False\<rparr>
      | FetchFresh \<Rightarrow> fetchSharePrice env fetchedAt outcome st)"

subsection \<open>The quote endpoint (netlify/functions/get-schd-price.js)\<close>

text \<open>
  The handler reads the API key from the environment, fetches the provider's quote and
  answers with a status and an object that \<^verbatim>\<open>JSON.stringify\<close> writes into the body. Its
  own \<^verbatim>\<open>fetch\<close> has the same outcomes as the browser's. For a response that is not ok
  it reads the text of the body, and a body that cannot be read raises into the
  \<^verbatim>\<open>catch\<close>. \<^verbatim>\<open>typeof data.c !== 'number' || data.c <= 0\<close> lets a number pass that is
  above 0, the positive infinity included.
\<close>

record handler_response =
  statusCode :: int
  body :: json

definition errorBody :: "string \<Rightarrow> json" where
  "errorBody msg = JObj [(''error'', JStr msg)]"

definition handler :: "string option \<Rightarrow> fetch_outcome \<Rightarrow> handler_response" where
  "handler apiKey upstream =
     (if apiKey = None \<or> apiKey = Some [] then
        \<lparr>statusCode = 500, body = errorBody ''API key is not configured.''\<rparr>
      else
        (case upstream of
           NetworkError \<Rightarrow> \<lparr>statusCode = 500, body = errorBody ''An internal error occurred.''\<rparr>
         | Response status b \<Rightarrow>
             if \<not> ok status then
               (case b of
                  Unreadable \<Rightarrow>
                    \<lparr>statusCode = 500, body = errorBody ''An internal error occurred.''\<rparr>
                | _ \<Rightarrow>
                    \<lparr>statusCode = status,
                     body = errorBody ''Failed to fetch price from data provider.''\<rparr>)
             else
               (case b of
                  Unreadable \<Rightarrow>
                    \<lparr>statusCode = 500, body = errorBody ''An internal error occurred.''\<rparr>
                | Malformed \<Rightarrow>
                    \<lparr>statusCode = 500, body = errorBody ''An internal error occurred.''\<rparr>
                | Parsed data \<Rightarrow>
                    (case getProp data ''c'' of
                       TypeError \<Rightarrow>
                         \<lparr>statusCode = 500, body = errorBody ''An internal error occurred.''\<rparr>
                     | Undefined \<Rightarrow>
                         \<lparr>statusCode = 500, body = errorBody ''Received invalid price data.''\<rparr>
                     | Value c \<Rightarrow>
                         (case c of
                            JNum x \<Rightarrow>
                              if x \<le> 0 then
                                \<lparr>statusCode = 500,
                                 body = errorBody ''Received invalid price data.''\<rparr>
                              else \<lparr>statusCode = 200, body = JObj [(''price'', JNum x)]\<rparr>
                          | JInfinity positive \<Rightarrow>
                              if \<not> positive then
                                \<lparr>statusCode = 500,
                                 body = errorBody ''Received invalid price data.''\<rparr>
                              else
                                \<lparr>statusCode = 200,
                                 body = JObj [(''price'', JInfinity True)]\<rparr>
                          | _ \<Rightarrow>
                              \<lparr>statusCode = 500,
                               body = errorBody ''Received invalid price data.''\<rparr>)))))"

text \<open>
  \<^verbatim>\<open>JSON.stringify\<close> followed by \<^verbatim>\<open>JSON.parse\<close>: an infinity is written as
  \<^verbatim>\<open>null\<close>, every other value of this type comes back as it was.
\<close>

primrec stringifyParse :: "json \<Rightarrow> json" where
  "stringifyParse JNull = JNull"
| "stringifyParse (JBool b) = JBool b"
| "stringifyParse (JNum x) = JNum x"
| "stringifyParse (JInfinity positive) = JNull"
| "stringifyParse (JStr s) = JStr s"
| "stringifyParse (JArr xs) = JArr (map stringifyParse xs)"
| "stringifyParse (JObj members) = JObj (map (map_prod id stringifyParse) members)"

text \<open>
  What the browser's fetch brings when the handler's answer arrives: the status, and
  the body that \<^verbatim>\<open>JSON.stringify\<close> wrote, parsed back.
\<close>

definition deliver :: "handler_response \<Rightarrow> fetch_outcome" where
  "deliver r = Response (statusCode r) (Parsed (stringifyParse (body r)))"

section \<open>Properties\<close>


lemma toFixed2_close: "\<bar>toFixed2 x - x\<bar> \<le> 1 / 200"
proof -
  have r: "\<bar>of_int \<lfloor>y * 100 + 1 / 2\<rfloor> / 100 - y\<bar> \<le> 1 / 200" for y :: real
  proof -
    have b: "\<bar>of_int n / 100 - y\<bar> \<le> 1 / 200"
      if "of_int n \<le> y * 100 + 1 / 2" and "y * 100 + 1 / 2 < of_int n + 1" for n :: int
      using that by linarith
    have "of_int \<lfloor>y * 100 + 1 / 2\<rfloor> \<le> y * 100 + 1 / 2"
      and "y * 100 + 1 / 2 < of_int \<lfloor>y * 100 + 1 / 2\<rfloor> + 1"
      by linarith+
    then show ?thesis by (rule b)
  qed
  show ?thesis
  proof (cases "x < 0")
    case True
    have "\<bar>- a - x\<bar> = \<bar>a - (- x)\<bar>" for a :: real
      by linarith
    with True show ?thesis using r [of "- x"] by (simp add: toFixed2_def)
  next
    case False
    then show ?thesis using r [of x] by (simp add: toFixed2_def)
  qed
qed

lemma history_sums:
  "sumDividends (take 4 DIVIDEND_HISTORY) = 1.02"
  "sumDividends (take 4 (drop 4 DIVIDEND_HISTORY)) = 0.94"
  by (simp_all add: DIVIDEND_HISTORY_def sumDividends_def)

lemma history_length: "length DIVIDEND_HISTORY = 20"
  by (simp add: DIVIDEND_HISTORY_def)

lemma pow2_powr: "pow2 k = 2 powr (of_int k)"
proof (cases "0 \<le> k")
  case True
  then show ?thesis
    by (simp add: pow2_def powr_realpow [symmetric])
next
  case False
  then have "(2::real) powr (of_int k) = 1 / 2 powr (of_int (- k))"
    by (simp add: powr_minus divide_inverse)
  also have "\<dots> = 1 / 2 ^ nat (- k)"
    using False by (simp add: powr_realpow [symmetric])
  finally show ?thesis using False by (simp add: pow2_def)
qed

lemma floor_log2:
  assumes "pow2 e \<le> a" and "a < pow2 (e + 1)"
  shows "\<lfloor>log 2 a\<rfloor> = e"
proof -
  have "(0::real) < 2 powr (of_int e)"
    by simp
  also have "2 powr (of_int e) \<le> a"
    using assms(1) by (simp only: pow2_powr)
  finally have pos: "0 < a" .
  have "of_int e \<le> log 2 a"
    using assms(1) pos by (simp add: pow2_powr le_log_iff)
  moreover have "log 2 a < of_int e + 1"
    using assms(2) pos by (simp add: pow2_powr log_less_iff add.commute)
  ultimately show ?thesis by linarith
qed

text \<open>
  The rounding of a number whose leading bit has the exponent \<open>e\<close>, in the range of the
  normal doubles: the number is counted in units of 2 to the (\<open>e\<close> - 52) and the count
  is rounded to an integer.
\<close>

lemma toDouble_eval:
  assumes "pow2 e \<le> \<bar>x\<bar>" and "\<bar>x\<bar> < pow2 (e + 1)" and "- 1022 \<le> e" and "e \<le> 1022"
    and "roundHalfEven (\<bar>x\<bar> / pow2 (e - 52)) = n" and "of_int n * pow2 (e - 52) < pow2 1024"
  shows "toDouble x
           = Finite (if x < 0 then - (of_int n * pow2 (e - 52)) else of_int n * pow2 (e - 52))"
proof -
  have "x \<noteq> 0"
    using assms(1) by (auto simp add: pow2_powr)
  moreover have "max \<lfloor>log 2 \<bar>x\<bar>\<rfloor> (- 1022) = e"
    using floor_log2 [OF assms(1,2)] assms(3) by simp
  ultimately show ?thesis
    unfolding toDouble_def Let_def using assms(5,6)
    by (simp only: if_False not_le [symmetric])
qed

text \<open>
  The roundings met when the statistic is computed for the shipped history and for four
  dividends of 0.35 after four of 0.32.
\<close>

lemma example_doubles:
  shows "toDouble (13 / 50) = Finite (1170935903116329 / 4503599627370496)"
    and "toDouble (1170935903116329 / 4503599627370496) = Finite (1170935903116329 / 4503599627370496)"
    and "toDouble (1 / 4) = Finite (1 / 4)"
    and "toDouble (2296835809958953 / 4503599627370496) = Finite (2296835809958953 / 4503599627370496)"
    and "toDouble (1733885856537641 / 2251799813685248) = Finite (1733885856537641 / 2251799813685248)"
    and "toDouble (2296835809958953 / 2251799813685248) = Finite (2296835809958953 / 2251799813685248)"
    and "toDouble (27 / 100) = Finite (607985949695017 / 2251799813685248)"
    and "toDouble (607985949695017 / 2251799813685248) = Finite (607985949695017 / 2251799813685248)"
    and "toDouble (1 / 5) = Finite (3602879701896397 / 18014398509481984)"
    and "toDouble (8466767299456533 / 18014398509481984) = Finite (8466767299456533 / 18014398509481984)"
    and "toDouble (12970366926827029 / 18014398509481984) = Finite (3242591731706757 / 4503599627370496)"
    and "toDouble (11 / 50) = Finite (7926335344172073 / 36028797018963968)"
    and "toDouble (33867069197826129 / 36028797018963968) = Finite (2116691824864133 / 2251799813685248)"
    and "toDouble (45035996273705 / 562949953421312) = Finite (45035996273705 / 562949953421312)"
    and "toDouble (180143985094820 / 2116691824864133) = Finite (6132561194717277 / 72057594037927936)"
    and "toDouble (153314029867931925 / 18014398509481984) = Finite (4791063433372873 / 562949953421312)"
    and "toDouble (7 / 20) = Finite (3152519739159347 / 9007199254740992)"
    and "toDouble (3152519739159347 / 9007199254740992) = Finite (3152519739159347 / 9007199254740992)"
    and "toDouble (3152519739159347 / 4503599627370496) = Finite (3152519739159347 / 4503599627370496)"
    and "toDouble (9457559217478041 / 9007199254740992) = Finite (1182194902184755 / 1125899906842624)"
    and "toDouble (12610078956637387 / 9007199254740992) = Finite (3152519739159347 / 2251799813685248)"
    and "toDouble (8 / 25) = Finite (5764607523034235 / 18014398509481984)"
    and "toDouble (5764607523034235 / 18014398509481984) = Finite (5764607523034235 / 18014398509481984)"
    and "toDouble (5764607523034235 / 9007199254740992) = Finite (5764607523034235 / 9007199254740992)"
    and "toDouble (17293822569102705 / 18014398509481984) = Finite (1080863910568919 / 1125899906842624)"
    and "toDouble (23058430092136939 / 18014398509481984) = Finite (5764607523034235 / 4503599627370496)"
    and "toDouble (540431955284459 / 4503599627370496) = Finite (540431955284459 / 4503599627370496)"
    and "toDouble (540431955284459 / 5764607523034235) = Finite (6755399441055737 / 72057594037927936)"
    and "toDouble (168884986026393425 / 18014398509481984) = Finite (5277655813324795 / 562949953421312)"
proof -
  show "toDouble (13 / 50) = Finite (1170935903116329 / 4503599627370496)"
    by (rule trans [OF toDouble_eval [where e = "-2" and n = 4683743612465316]])
       (simp_all add: pow2_def roundHalfEven_def)
  show "toDouble (1170935903116329 / 4503599627370496) = Finite (1170935903116329 / 4503599627370496)"
    by (rule trans [OF toDouble_eval [where e = "-2" and n = 4683743612465316]])
       (simp_all add: pow2_def roundHalfEven_def)
  show "toDouble (1 / 4) = Finite (1 / 4)"
    by (rule trans [OF toDouble_eval [where e = "-2" and n = 4503599627370496]])
       (simp_all add: pow2_def roundHalfEven_def)
  show "toDouble (2296835809958953 / 4503599627370496) = Finite (2296835809958953 / 4503599627370496)"
    by (rule trans [OF toDouble_eval [where e = "-1" and n = 4593671619917906]])
       (simp_all add: pow2_def roundHalfEven_def)
  show "toDouble (1733885856537641 / 2251799813685248) = Finite (1733885856537641 / 2251799813685248)"
    by (rule trans [OF toDouble_eval [where e = "-1" and n = 6935543426150564]])
       (simp_all add: pow2_def roundHalfEven_def)
  show "toDouble (2296835809958953 / 2251799813685248) = Finite (2296835809958953 / 2251799813685248)"
    by (rule trans [OF toDouble_eval [where e = "0" and n = 4593671619917906]])
       (simp_all add: pow2_def roundHalfEven_def)
  show "toDouble (27 / 100) = Finite (607985949695017 / 2251799813685248)"
    by (rule trans [OF toDouble_eval [where e = "-2" and n = 4863887597560136]])
       (simp_all add: pow2_def roundHalfEven_def)
  show "toDouble (607985949695017 / 2251799813685248) = Finite (607985949695017 / 2251799813685248)"
    by (rule trans [OF toDouble_eval [where e = "-2" and n = 4863887597560136]])
       (simp_all add: pow2_def roundHalfEven_def)
  show "toDouble (1 / 5) = Finite (3602879701896397 / 18014398509481984)"
    by (rule trans [OF toDouble_eval [where e = "-3" and n = 7205759403792794]])
       (simp_all add: pow2_def roundHalfEven_def)
  show "toDouble (8466767299456533 / 18014398509481984) = Finite (8466767299456533 / 18014398509481984)"
    by (rule trans [OF toDouble_eval [where e = "-2" and n = 8466767299456533]])
       (simp_all add: pow2_def roundHalfEven_def)
  show "toDouble (12970366926827029 / 18014398509481984) = Finite (3242591731706757 / 4503599627370496)"
    by (rule trans [OF toDouble_eval [where e = "-1" and n = 6485183463413514]])
       (simp_all add: pow2_def roundHalfEven_def)
  show "toDouble (11 / 50) = Finite (7926335344172073 / 36028797018963968)"
    by (rule trans [OF toDouble_eval [where e = "-3" and n = 7926335344172073]])
       (simp_all add: pow2_def roundHalfEven_def)
  show "toDouble (33867069197826129 / 36028797018963968) = Finite (2116691824864133 / 2251799813685248)"
    by (rule trans [OF toDouble_eval [where e = "-1" and n = 8466767299456532]])
       (simp_all add: pow2_def roundHalfEven_def)
  show "toDouble (45035996273705 / 562949953421312) = Finite (45035996273705 / 562949953421312)"
    by (rule trans [OF toDouble_eval [where e = "-4" and n = 5764607523034240]])
       (simp_all add: pow2_def roundHalfEven_def)
  show "toDouble (180143985094820 / 2116691824864133) = Finite (6132561194717277 / 72057594037927936)"
    by (rule trans [OF toDouble_eval [where e = "-4" and n = 6132561194717277]])
       (simp_all add: pow2_def roundHalfEven_def)
  show "toDouble (153314029867931925 / 18014398509481984) = Finite (4791063433372873 / 562949953421312)"
    by (rule trans [OF toDouble_eval [where e = "3" and n = 4791063433372873]])
       (simp_all add: pow2_def roundHalfEven_def)
  show "toDouble (7 / 20) = Finite (3152519739159347 / 9007199254740992)"
    by (rule trans [OF toDouble_eval [where e = "-2" and n = 6305039478318694]])
       (simp_all add: pow2_def roundHalfEven_def)
  show "toDouble (3152519739159347 / 9007199254740992) = Finite (3152519739159347 / 9007199254740992)"
    by (rule trans [OF toDouble_eval [where e = "-2" and n = 6305039478318694]])
       (simp_all add: pow2_def roundHalfEven_def)
  show "toDouble (3152519739159347 / 4503599627370496) = Finite (3152519739159347 / 4503599627370496)"
    by (rule trans [OF toDouble_eval [where e = "-1" and n = 6305039478318694]])
       (simp_all add: pow2_def roundHalfEven_def)
  show "toDouble (9457559217478041 / 9007199254740992) = Finite (1182194902184755 / 1125899906842624)"
    by (rule trans [OF toDouble_eval [where e = "0" and n = 4728779608739020]])
       (simp_all add: pow2_def roundHalfEven_def)
  show "toDouble (12610078956637387 / 9007199254740992) = Finite (3152519739159347 / 2251799813685248)"
    by (rule trans [OF toDouble_eval [where e = "0" and n = 6305039478318694]])
       (simp_all add: pow2_def roundHalfEven_def)
  show "toDouble (8 / 25) = Finite (5764607523034235 / 18014398509481984)"
    by (rule trans [OF toDouble_eval [where e = "-2" and n = 5764607523034235]])
       (simp_all add: pow2_def roundHalfEven_def)
  show "toDouble (5764607523034235 / 18014398509481984) = Finite (5764607523034235 / 18014398509481984)"
    by (rule trans [OF toDouble_eval [where e = "-2" and n = 5764607523034235]])
       (simp_all add: pow2_def roundHalfEven_def)
  show "toDouble (5764607523034235 / 9007199254740992) = Finite (5764607523034235 / 9007199254740992)"
    by (rule trans [OF toDouble_eval [where e = "-1" and n = 5764607523034235]])
       (simp_all add: pow2_def roundHalfEven_def)
  show "toDouble (17293822569102705 / 18014398509481984) = Finite (1080863910568919 / 1125899906842624)"
    by (rule trans [OF toDouble_eval [where e = "-1" and n = 8646911284551352]])
       (simp_all add: pow2_def roundHalfEven_def)
  show "toDouble (23058430092136939 / 18014398509481984) = Finite (5764607523034235 / 4503599627370496)"
    by (rule trans [OF toDouble_eval [where e = "0" and n = 5764607523034235]])
       (simp_all add: pow2_def roundHalfEven_def)
  show "toDouble (540431955284459 / 4503599627370496) = Finite (540431955284459 / 4503599627370496)"
    by (rule trans [OF toDouble_eval [where e = "-4" and n = 8646911284551344]])
       (simp_all add: pow2_def roundHalfEven_def)
  show "toDouble (540431955284459 / 5764607523034235) = Finite (6755399441055737 / 72057594037927936)"
    by (rule trans [OF toDouble_eval [where e = "-4" and n = 6755399441055737]])
       (simp_all add: pow2_def roundHalfEven_def)
  show "toDouble (168884986026393425 / 18014398509481984) = Finite (5277655813324795 / 562949953421312)"
    by (rule trans [OF toDouble_eval [where e = "3" and n = 5277655813324795]])
       (simp_all add: pow2_def roundHalfEven_def)
qed

subsection \<open>Yield calculator\<close>





text \<open>
  Claim C5 (as stated: for every price at or below 0 the yield is 0). The effect does
  nothing unless \<^verbatim>\<open>sharePrice > 0\<close>, so the state keeps the yield it had. With the
  initial yield 3.48 and the price field cleared (\<^verbatim>\<open>Number("")\<close> is 0) the yield stays
  3.48.
\<close>

theorem computeYield_nonpositive_price_counterexample:
  "(0::real) \<le> 0 \<and>
   computeYield (\<lambda>s. Some 0) 3.48 0 forward DIVIDEND_HISTORY 1750000000000 \<noteq> 0"
  by (simp add: computeYield_def dividendYieldEffect_def)

text \<open>
  Claim C5, amended. For every price at or below 0, every method, history and \<open>asOf\<close>,
  the recomputation leaves the yield at the value it had before.
\<close>

theorem computeYield_nonpositive_price_unchanged:
  "price \<le> 0 \<Longrightarrow>
   computeYield parseDate dividendYield price method history asOf = dividendYield"
  by (simp add: computeYield_def dividendYieldEffect_def)

theorem computeYield_nonpositive_price_unchanged_witness:
  "(-1::real) \<le> 0 \<and>
   computeYield (\<lambda>s. Some 0) 3.48 (-1) ttm DIVIDEND_HISTORY 1750000000000 = 3.48"
  using computeYield_nonpositive_price_unchanged
    [of "-1" "\<lambda>s. Some 0" "3.48" ttm DIVIDEND_HISTORY 1750000000000]
  by simp

subsection \<open>Income projector\<close>

text \<open>
  Claim C4 (as stated: the projection depends on investment and yield only, and is
  investment * yield / 100 per year whenever both are above 0). The code also tests the
  share price: with investment 10000, yield 3.48 and share price 0 every period is 0.
\<close>

theorem calculateDividends_two_inputs_counterexample:
  "\<not> ((10000::real) \<le> 0 \<or> (3.48::real) \<le> 0) \<and>
   annually (calculateDividends 10000 0 3.48) \<noteq> 10000 * 3.48 / 100"
  by (simp add: calculateDividends_def)

text \<open>
  Claim C4, amended. For every investment, share price and yield, every period is 0 when
  the investment, the share price or the yield is at or below 0; otherwise the annual
  income is investment * yield / 100, the quarterly income a 4th of it, the monthly a
  12th and the daily a 365th.
\<close>

theorem calculateDividends_formula:
  "calculateDividends investment price yieldPercent =
     (if investment \<le> 0 \<or> price \<le> 0 \<or> yieldPercent \<le> 0
      then \<lparr>annually = 0, quarterly = 0, monthly = 0, daily = 0\<rparr>
      else \<lparr>annually = investment * yieldPercent / 100,
            quarterly = (investment * yieldPercent / 100) / 4,
            monthly = (investment * yieldPercent / 100) / 12,
            daily = (investment * yieldPercent / 100) / 365\<rparr>)"
  by (simp add: calculateDividends_def Let_def)

theorem calculateDividends_formula_witness:
  "calculateDividends 10000 78.5 3
     = \<lparr>annually = 300, quarterly = 75, monthly = 25, daily = 300 / 365\<rparr>
   \<and> calculateDividends (-5) 78.5 3
     = \<lparr>annually = 0, quarterly = 0, monthly = 0, daily = 0\<rparr>
   \<and> calculateDividends 10000 78.5 0
     = \<lparr>annually = 0, quarterly = 0, monthly = 0, daily = 0\<rparr>"
  using calculateDividends_formula [of 10000 "78.5" 3]
    calculateDividends_formula [of "-5" "78.5" 3]
    calculateDividends_formula [of 10000 "78.5" 0]
  by simp

text \<open>
  Claim C10. For every investment above 0 and every yield above 0, a share price at or
  below 0 makes all four periods 0.
\<close>

theorem calculateDividends_price_guard:
  "0 < investment \<Longrightarrow> 0 < dividendYield \<Longrightarrow> price \<le> 0 \<Longrightarrow>
   calculateDividends investment price dividendYield
     = \<lparr>annually = 0, quarterly = 0, monthly = 0, daily = 0\<rparr>"
  by (simp add: calculateDividends_def)

theorem calculateDividends_price_guard_witness:
  "(0::real) < 10000 \<and> (0::real) < 3.48 \<and> (0::real) \<le> 0 \<and>
   calculateDividends 10000 0 3.48
     = \<lparr>annually = 0, quarterly = 0, monthly = 0, daily = 0\<rparr>"
  using calculateDividends_price_guard [of 10000 "3.48" 0] by simp

subsection \<open>End-to-end scenario\<close>

text \<open>
  Claim C9. For a history whose first entry pays 0.26 (the shipped history has 20
  entries), price 78.50 and the forward method, the annualised dividend is 1.04 and the
  yield is 1.04 / 78.50 * 100, which is 1.32 to two decimals; with investment 10000 the
  incomes are 132.48 a year, 33.12 a quarter, 11.04 a month and 0.36 a day, each to
  the cent (within half a cent).
\<close>

theorem forward_scenario:
  assumes "history = d # rest" and "dividend d = 0.26"
  shows "annualDividendPerShare forward history past = 1.04
       \<and> computeYield parseDate prev 78.5 forward history asOf = 1.04 / 78.5 * 100
       \<and> \<bar>computeYield parseDate prev 78.5 forward history asOf - 1.32\<bar> < 0.005
       \<and> \<bar>annually (calculateDividends 10000 78.5
              (computeYield parseDate prev 78.5 forward history asOf)) - 132.48\<bar> < 0.005
       \<and> \<bar>quarterly (calculateDividends 10000 78.5
              (computeYield parseDate prev 78.5 forward history asOf)) - 33.12\<bar> < 0.005
       \<and> \<bar>monthly (calculateDividends 10000 78.5
              (computeYield parseDate prev 78.5 forward history asOf)) - 11.04\<bar> < 0.005
       \<and> \<bar>daily (calculateDividends 10000 78.5
              (computeYield parseDate prev 78.5 forward history asOf)) - 0.36\<bar> < 0.005"
proof -
  have a: "annualDividendPerShare forward history p = 1.04" for p
    using assms by (simp add: annualDividendPerShare_def)
  have y: "computeYield parseDate prev 78.5 forward history asOf = 1.04 / 78.5 * 100"
    by (simp add: computeYield_def dividendYieldEffect_def a)
  show ?thesis
    unfolding y using a by (simp add: calculateDividends_def)
qed

theorem forward_scenario_witness:
  "DIVIDEND_HISTORY = hd DIVIDEND_HISTORY # tl DIVIDEND_HISTORY
   \<and> dividend (hd DIVIDEND_HISTORY) = 0.26
   \<and> 16 \<le> length DIVIDEND_HISTORY
   \<and> computeYield (\<lambda>s. Some 0) 3.48 78.5 forward DIVIDEND_HISTORY 1750000000000
       = 1.04 / 78.5 * 100
   \<and> \<bar>annually (calculateDividends 10000 78.5
          (computeYield (\<lambda>s. Some 0) 3.48 78.5 forward DIVIDEND_HISTORY 1750000000000))
        - 132.48\<bar> < 0.005"
proof -
  have h: "DIVIDEND_HISTORY = hd DIVIDEND_HISTORY # tl DIVIDEND_HISTORY"
    and d: "dividend (hd DIVIDEND_HISTORY) = 0.26"
    by (simp_all add: DIVIDEND_HISTORY_def)
  show ?thesis
    using forward_scenario [OF h d, of "[]" "\<lambda>s. Some 0" "3.48" 1750000000000] h d
    by (simp add: history_length)
qed

subsection \<open>Growth statistic\<close>

lemma toFixed2_hundredths: "\<exists>n :: int. toFixed2 x = of_int n / 100"
proof (cases "x < 0")
  case True
  then have "toFixed2 x = of_int (- \<lfloor>(- x) * 100 + 1 / 2\<rfloor>) / 100"
    by (simp add: toFixed2_def)
  then show ?thesis by blast
next
  case False
  then have "toFixed2 x = of_int \<lfloor>x * 100 + 1 / 2\<rfloor> / 100"
    by (simp add: toFixed2_def)
  then show ?thesis by blast
qed

lemma shipped_growth: "dividendGrowth DIVIDEND_HISTORY = Percent (Finite 8.51)"
  by (simp add: dividendGrowth_def DIVIDEND_HISTORY_def sumDividendsDouble_def dsub_def
      example_doubles toFixed2_def)

text \<open>
  Claim C8 (as stated: the statistic equals the growth formula). The code returns the
  text that \<^verbatim>\<open>toFixed(2)\<close> makes of the computed number. With the shipped history, all
  of it in the past, the recent sum is 1.02 and the prior sum 0.94; the formula gives
  400/47 = 8.5106..., the statistic is 8.51.
\<close>

theorem dividendGrowth_unrounded_counterexample:
  "\<not> length DIVIDEND_HISTORY < 8
   \<and> sumDividends (take 4 (drop 4 DIVIDEND_HISTORY)) \<noteq> 0
   \<and> (sumDividends (take 4 DIVIDEND_HISTORY) - sumDividends (take 4 (drop 4 DIVIDEND_HISTORY)))
        / sumDividends (take 4 (drop 4 DIVIDEND_HISTORY)) * 100 = 400 / 47
   \<and> dividendGrowth DIVIDEND_HISTORY = Percent (Finite 8.51)
   \<and> dividendGrowth DIVIDEND_HISTORY \<noteq> Percent (Finite (400 / 47))"
  by (simp add: shipped_growth history_sums history_length)

text \<open>
  Claim C8, amended. For every list of past dividends, the sums, the difference, the
  quotient and the product being computed in double precision as the engine computes
  them: the statistic is "not available" exactly when there are fewer than 8 entries or
  the sum of entries 5 to 8 is 0 (so with exactly 7 entries it is "not available");
  otherwise it is (sum of the first 4 - sum of entries 5 to 8) / (sum of entries 5 to 8)
  * 100 as formatted by \<^verbatim>\<open>toFixed(2)\<close>, which for a number below 10 to the 21 in
  magnitude is a number of hundredths at most 0.005 away from it.
\<close>

theorem dividendGrowth_double:
  "(length past < 8 \<longrightarrow> dividendGrowth past = NotAvailable)
   \<and> (length past = 7 \<longrightarrow> dividendGrowth past = NotAvailable)
   \<and> (past = d1 # d2 # d3 # d4 # d5 # d6 # d7 # d8 # rest \<longrightarrow>
        dividendGrowth past =
          (let recent = dadd (dadd (dadd (dadd (Finite 0) (toDouble (dividend d1)))
                          (toDouble (dividend d2))) (toDouble (dividend d3)))
                          (toDouble (dividend d4));
               prior = dadd (dadd (dadd (dadd (Finite 0) (toDouble (dividend d5)))
                         (toDouble (dividend d6))) (toDouble (dividend d7)))
                         (toDouble (dividend d8))
           in if prior = Finite 0 then NotAvailable
              else Percent (toFixed (dmul (ddiv (dsub recent prior) prior) (Finite 100)))))
   \<and> (dividendGrowth past = NotAvailable \<longleftrightarrow>
        (length past < 8
         \<or> foldl (\<lambda>acc x. dadd acc (toDouble x)) (Finite 0)
              (map dividend (take 4 (drop 4 past))) = Finite 0))
   \<and> (\<bar>x\<bar> < 10 ^ 21 \<longrightarrow>
        (\<exists>n :: int. toFixed (Finite x) = Finite (of_int n / 100)
           \<and> \<bar>of_int n / 100 - x\<bar> \<le> 1 / 200))"
proof -
  have short: "length past < 8 \<longrightarrow> dividendGrowth past = NotAvailable"
    by (simp add: dividendGrowth_def)
  have seven: "length past = 7 \<longrightarrow> dividendGrowth past = NotAvailable"
    by (simp add: dividendGrowth_def)
  have eight: "past = d1 # d2 # d3 # d4 # d5 # d6 # d7 # d8 # rest \<longrightarrow>
        dividendGrowth past =
          (let recent = dadd (dadd (dadd (dadd (Finite 0) (toDouble (dividend d1)))
                          (toDouble (dividend d2))) (toDouble (dividend d3)))
                          (toDouble (dividend d4));
               prior = dadd (dadd (dadd (dadd (Finite 0) (toDouble (dividend d5)))
                         (toDouble (dividend d6))) (toDouble (dividend d7)))
                         (toDouble (dividend d8))
           in if prior = Finite 0 then NotAvailable
              else Percent (toFixed (dmul (ddiv (dsub recent prior) prior) (Finite 100))))"
    by (simp add: dividendGrowth_def sumDividendsDouble_def Let_def)
  have fold: "sumDividendsDouble xs
                = foldl (\<lambda>acc x. dadd acc (toDouble x)) (Finite 0) (map dividend xs)" for xs
    by (simp add: sumDividendsDouble_def foldl_map)
  have na: "dividendGrowth past = NotAvailable \<longleftrightarrow>
        (length past < 8
         \<or> foldl (\<lambda>acc x. dadd acc (toDouble x)) (Finite 0)
              (map dividend (take 4 (drop 4 past))) = Finite 0)"
    unfolding fold [symmetric] by (simp add: dividendGrowth_def Let_def)
  have fixed: "\<bar>x\<bar> < 10 ^ 21 \<longrightarrow>
        (\<exists>n :: int. toFixed (Finite x) = Finite (of_int n / 100)
           \<and> \<bar>of_int n / 100 - x\<bar> \<le> 1 / 200)"
  proof
    assume small: "\<bar>x\<bar> < 10 ^ 21"
    obtain n :: int where n: "toFixed2 x = of_int n / 100"
      using toFixed2_hundredths by blast
    have "toFixed (Finite x) = Finite (of_int n / 100)"
      using small n by simp
    moreover have "\<bar>of_int n / 100 - x\<bar> \<le> 1 / 200"
      using toFixed2_close [of x] n by simp
    ultimately show "\<exists>n :: int. toFixed (Finite x) = Finite (of_int n / 100)
           \<and> \<bar>of_int n / 100 - x\<bar> \<le> 1 / 200"
      by blast
  qed
  show ?thesis
    using short seven eight na fixed by blast
qed

lemma toDouble_zero: "toDouble 0 = Finite 0"
  by (simp add: toDouble_def)

lemma tie_growth:
  "dividendGrowth
     [\<lparr>date = ''9/24/2025'', dividend = 0.35\<rparr>, \<lparr>date = ''6/25/2025'', dividend = 0.35\<rparr>,
      \<lparr>date = ''3/26/2025'', dividend = 0.35\<rparr>, \<lparr>date = ''12/11/2024'', dividend = 0.35\<rparr>,
      \<lparr>date = ''9/25/2024'', dividend = 0.32\<rparr>, \<lparr>date = ''6/26/2024'', dividend = 0.32\<rparr>,
      \<lparr>date = ''3/20/2024'', dividend = 0.32\<rparr>, \<lparr>date = ''12/6/2023'', dividend = 0.32\<rparr>]
     = Percent (Finite 9.37)"
  by (simp add: dividendGrowth_def sumDividendsDouble_def dsub_def example_doubles toFixed2_def)

lemma zero_prior_growth:
  "dividendGrowth
     [\<lparr>date = ''9/24/2025'', dividend = 0.35\<rparr>, \<lparr>date = ''6/25/2025'', dividend = 0.35\<rparr>,
      \<lparr>date = ''3/26/2025'', dividend = 0.35\<rparr>, \<lparr>date = ''12/11/2024'', dividend = 0.35\<rparr>,
      \<lparr>date = ''9/25/2024'', dividend = 0\<rparr>, \<lparr>date = ''6/26/2024'', dividend = 0\<rparr>,
      \<lparr>date = ''3/20/2024'', dividend = 0\<rparr>, \<lparr>date = ''12/6/2023'', dividend = 0\<rparr>]
     = NotAvailable"
  by (simp add: dividendGrowth_def sumDividendsDouble_def toDouble_zero)

lemma seven_entries:
  "length (take 7 DIVIDEND_HISTORY) = 7"
  "dividendGrowth (take 7 DIVIDEND_HISTORY) = NotAvailable"
  by (simp_all add: dividendGrowth_def history_length)

text \<open>
  The shipped history gives 8.51; four dividends of 0.35 after four of 0.32 give 9.37
  (the computed number is just below 9.375, which exact arithmetic would give); seven
  entries give "not available", and so do eight entries whose last four are 0.
\<close>

theorem dividendGrowth_double_witness:
  "dividendGrowth DIVIDEND_HISTORY = Percent (Finite 8.51)
   \<and> dividendGrowth
        [\<lparr>date = ''9/24/2025'', dividend = 0.35\<rparr>, \<lparr>date = ''6/25/2025'', dividend = 0.35\<rparr>,
         \<lparr>date = ''3/26/2025'', dividend = 0.35\<rparr>, \<lparr>date = ''12/11/2024'', dividend = 0.35\<rparr>,
         \<lparr>date = ''9/25/2024'', dividend = 0.32\<rparr>, \<lparr>date = ''6/26/2024'', dividend = 0.32\<rparr>,
         \<lparr>date = ''3/20/2024'', dividend = 0.32\<rparr>, \<lparr>date = ''12/6/2023'', dividend = 0.32\<rparr>]
       = Percent (Finite 9.37)
   \<and> length (take 7 DIVIDEND_HISTORY) = 7
   \<and> dividendGrowth (take 7 DIVIDEND_HISTORY) = NotAvailable
   \<and> dividendGrowth
        [\<lparr>date = ''9/24/2025'', dividend = 0.35\<rparr>, \<lparr>date = ''6/25/2025'', dividend = 0.35\<rparr>,
         \<lparr>date = ''3/26/2025'', dividend = 0.35\<rparr>, \<lparr>date = ''12/11/2024'', dividend = 0.35\<rparr>,
         \<lparr>date = ''9/25/2024'', dividend = 0\<rparr>, \<lparr>date = ''6/26/2024'', dividend = 0\<rparr>,
         \<lparr>date = ''3/20/2024'', dividend = 0\<rparr>, \<lparr>date = ''12/6/2023'', dividend = 0\<rparr>]
       = NotAvailable"
  using dividendGrowth_double [of "take 7 DIVIDEND_HISTORY"]
    dividendGrowth_double
      [where past = "[\<lparr>date = ''9/24/2025'', dividend = 0.35\<rparr>,
         \<lparr>date = ''6/25/2025'', dividend = 0.35\<rparr>,
         \<lparr>date = ''3/26/2025'', dividend = 0.35\<rparr>, \<lparr>date = ''12/11/2024'', dividend = 0.35\<rparr>,
         \<lparr>date = ''9/25/2024'', dividend = 0.32\<rparr>, \<lparr>date = ''6/26/2024'', dividend = 0.32\<rparr>,
         \<lparr>date = ''3/20/2024'', dividend = 0.32\<rparr>, \<lparr>date = ''12/6/2023'', dividend = 0.32\<rparr>]"
        and ?d1.0 = "\<lparr>date = ''9/24/2025'', dividend = 0.35\<rparr>"
        and ?d2.0 = "\<lparr>date = ''6/25/2025'', dividend = 0.35\<rparr>"
        and ?d3.0 = "\<lparr>date = ''3/26/2025'', dividend = 0.35\<rparr>"
        and ?d4.0 = "\<lparr>date = ''12/11/2024'', dividend = 0.35\<rparr>"
        and ?d5.0 = "\<lparr>date = ''9/25/2024'', dividend = 0.32\<rparr>"
        and ?d6.0 = "\<lparr>date = ''6/26/2024'', dividend = 0.32\<rparr>"
        and ?d7.0 = "\<lparr>date = ''3/20/2024'', dividend = 0.32\<rparr>"
        and ?d8.0 = "\<lparr>date = ''12/6/2023'', dividend = 0.32\<rparr>"
        and rest = "[]"]
  by (simp only: shipped_growth tie_growth zero_prior_growth seven_entries simp_thms)

subsection \<open>Market hours\<close>

lemma parse_examples:
  "parseFloat ''abc'' = NaN"
  "parseFloat ''78.5'' = Json (JNum 78.5)"
  "parseInt10 ''abc'' = None"
  "parseInt10 ''1700000000000'' = Some 1700000000000"
  by (simp_all add: parseFloat_def parseInt10_def isDigit_def isWhiteSpace_def digitsValue_def
      exponentFactor_def)

text \<open>
  What the function returns, for every time: true when the conversion raises; false
  when the converted text cannot be read back; and for a converted day, hour and minute
  in their ranges, true exactly for a day from Monday (1) to Friday (5) and a time of
  day from 09:30 up to, and not including, 16:00.
\<close>

lemma isMarketOpen_rule:
  "(toEastern now = ConversionThrows \<longrightarrow> isMarketOpen toEastern now)
   \<and> (toEastern now = Converted InvalidDate \<longrightarrow> \<not> isMarketOpen toEastern now)
   \<and> (toEastern now = Converted (EasternTime day hour minute)
         \<and> day \<le> 6 \<and> hour \<le> 23 \<and> minute \<le> 59 \<longrightarrow>
       (isMarketOpen toEastern now \<longleftrightarrow>
          (1 \<le> day \<and> day \<le> 5)
          \<and> ((hour = 9 \<and> 30 \<le> minute) \<or> (10 \<le> hour \<and> hour \<le> 15))))"
  by (auto simp add: isMarketOpen_def)

text \<open>
  Claim C7 (the function returns true only on a weekday between 09:30 and 16:00 Eastern
  time, and a failing conversion does not raise outward but fails open, returning
  true). The code fails open only when the conversion raises. When the conversion
  yields a text that \<^verbatim>\<open>new Date\<close> cannot read, nothing is raised, the getters return
  \<^verbatim>\<open>NaN\<close> and the function returns false, against its own comment ("Fail open to allow
  fetching if time conversion fails"). The market then counts as closed and the cache
  duration is 24 hours: an entry aged 23 hours is used and no fetch is made, where
  failing open (as the raising conversion does) makes the fetch.
\<close>

theorem isMarketOpen_invalid_date_fails_closed:
  "isMarketOpen (\<lambda>t. ConversionThrows) 1700082800000
   \<and> \<not> isMarketOpen (\<lambda>t. Converted InvalidDate) 1700082800000
   \<and> cacheDecision (\<lambda>t. ConversionThrows) 1700082800000
        [CACHE_KEY_PRICE \<mapsto> ''78.5'', CACHE_KEY_TIMESTAMP \<mapsto> ''1700000000000'']
       = FetchFresh
   \<and> cacheDecision (\<lambda>t. Converted InvalidDate) 1700082800000
        [CACHE_KEY_PRICE \<mapsto> ''78.5'', CACHE_KEY_TIMESTAMP \<mapsto> ''1700000000000'']
       = UseCached (Json (JNum 78.5))"
proof -
  have k: "CACHE_KEY_PRICE \<noteq> CACHE_KEY_TIMESTAMP"
    by (simp add: CACHE_KEY_PRICE_def CACHE_KEY_TIMESTAMP_def)
  have o: "isMarketOpen (\<lambda>t. ConversionThrows) 1700082800000"
    and c: "\<not> isMarketOpen (\<lambda>t. Converted InvalidDate) 1700082800000"
    by (simp_all add: isMarketOpen_def)
  have v: "\<not> isValid 1700000000000 1700082800000 True"
    "isValid 1700000000000 1700082800000 False"
    by (simp_all add: isValid_def CACHE_DURATION_TRADING_MIN_def CACHE_DURATION_CLOSED_HRS_def)
  show ?thesis
    using k o c v by (simp add: cacheDecision_def parse_examples)
qed

subsection \<open>Cache freshness\<close>

lemma age_minutes:
  "real_of_int d / (1000 * 60) < 15 \<longleftrightarrow> d < 15 * 60000"
  "real_of_int d / (1000 * 60) < 24 * 60 \<longleftrightarrow> d < 1440 * 60000"
  by (simp_all add: divide_less_eq)

text \<open>
  Claim C2. For every fetch time of an entry and every \<open>now\<close>, the entry is valid
  exactly when its age in minutes is below 15 with the market open and below 1440 with
  the market closed, that is when its age in milliseconds is below 900000, respectively
  86400000. With the market open an entry aged 14 minutes is valid and one aged 16
  minutes is not; with the market closed an entry aged 23 hours is valid and one aged 25
  hours is not.
\<close>

theorem isValid_threshold:
  "(isValid fetchedAt now True \<longleftrightarrow> real_of_int (now - fetchedAt) / 60000 < 15)
   \<and> (isValid fetchedAt now False \<longleftrightarrow> real_of_int (now - fetchedAt) / 60000 < 1440)
   \<and> (isValid fetchedAt now True \<longleftrightarrow> now - fetchedAt < 15 * 60000)
   \<and> (isValid fetchedAt now False \<longleftrightarrow> now - fetchedAt < 1440 * 60000)
   \<and> isValid fetchedAt (fetchedAt + 14 * 60000) True
   \<and> \<not> isValid fetchedAt (fetchedAt + 16 * 60000) True
   \<and> isValid fetchedAt (fetchedAt + 23 * 3600000) False
   \<and> \<not> isValid fetchedAt (fetchedAt + 25 * 3600000) False"
proof -
  have t: "isValid fetchedAt n True \<longleftrightarrow> n - fetchedAt < 15 * 60000" for n
    unfolding isValid_def Let_def CACHE_DURATION_TRADING_MIN_def
    by (simp only: if_True age_minutes)
  have f: "isValid fetchedAt n False \<longleftrightarrow> n - fetchedAt < 1440 * 60000" for n
    unfolding isValid_def Let_def CACHE_DURATION_CLOSED_HRS_def
    by (simp only: if_False age_minutes)
  have r: "isValid fetchedAt now True \<longleftrightarrow> real_of_int (now - fetchedAt) / 60000 < 15"
    "isValid fetchedAt now False \<longleftrightarrow> real_of_int (now - fetchedAt) / 60000 < 1440"
    by (simp_all add: isValid_def CACHE_DURATION_TRADING_MIN_def CACHE_DURATION_CLOSED_HRS_def)
  show ?thesis
    using r by (simp add: t f)
qed

theorem isValid_threshold_witness:
  "isValid 1700000000000 1700000840000 True
   \<and> \<not> isValid 1700000000000 1700000960000 True
   \<and> \<not> isValid 1700000000000 1700000900000 True
   \<and> isValid 1700000000000 1700082800000 False
   \<and> \<not> isValid 1700000000000 1700090000000 False"
  using isValid_threshold [of 1700000000000 1700000840000]
    isValid_threshold [of 1700000000000 1700000960000]
    isValid_threshold [of 1700000000000 1700000900000]
    isValid_threshold [of 1700000000000 1700082800000]
    isValid_threshold [of 1700000000000 1700090000000]
  by simp

subsection \<open>Price fetch\<close>

lemma fetchFailed_fields:
  "sharePrice (fetchFailed st) = Json (JNum 27)"
  "priceError (fetchFailed st) = Some ''Could not fetch live price.''"
  "isPriceLoading (fetchFailed st) = False"
  "localStorage (fetchFailed st) = localStorage st"
  by (simp_all add: fetchFailed_def)

lemma priceToString_number: "priceToString env (JNum x) = Some (numberToString env x)"
  by (simp add: priceToString_def)

lemma fetchSharePrice_failure:
  assumes "outcome = NetworkError
           \<or> (\<exists>status b. outcome = Response status b
                 \<and> (\<not> ok status \<or> b = Unreadable \<or> b = Malformed))
           \<or> (\<exists>status data. outcome = Response status (Parsed data)
                 \<and> (getProp data ''price'' = TypeError
                      \<or> getProp data ''price'' = Undefined
                      \<or> (\<exists>p. getProp data ''price'' = Value p
                            \<and> (\<not> truthy p \<or> priceToString env p = None))))"
  shows "fetchSharePrice env fetchedAt outcome st
           = st\<lparr>isPriceLoading := False, priceError := Some ''Could not fetch live price.'',
                sharePrice := Json (JNum 27)\<rparr>"
  using assms
  by (auto simp add: fetchSharePrice_def fetchFailed_def Let_def split: http_body.splits)

lemma fetchSharePrice_success:
  assumes "outcome = Response status (Parsed data)" and "ok status"
    and "getProp data ''price'' = Value p" and "truthy p" and "priceToString env p = Some s"
  shows "fetchSharePrice env fetchedAt outcome st
           = st\<lparr>isPriceLoading := False, priceError := None, sharePrice := Json p,
                localStorage := (localStorage st)
                  (CACHE_KEY_PRICE \<mapsto> s, CACHE_KEY_TIMESTAMP \<mapsto> showInt fetchedAt)\<rparr>"
  using assms
  by (simp add: fetchSharePrice_def Let_def)

text \<open>
  Claim C3 (as stated: a missing, non-numeric or non-positive price field is a failure,
  and the fetch succeeds exactly when the endpoint supplies a number above 0). The
  browser tests the price field with \<^verbatim>\<open>if (data.price)\<close> only. A response that is ok
  with the body \<^verbatim>\<open>{"price": -5}\<close> sets the share price to -5, and one with the body
  \<^verbatim>\<open>{"price": "abc"}\<close> sets it to the string; neither sets the error notice nor the
  fallback.
\<close>

theorem fetch_truthy_price_counterexample:
  "sharePrice (fetchSharePrice
       \<lparr>numberToString = (\<lambda>x. ''-5''), otherToString = (\<lambda>v. Some ''abc'')\<rparr> 1700000000000
       (Response 200 (Parsed (JObj [(''price'', JNum (- 5))])))
       \<lparr>sharePrice = Json (JNum 78.5), isPriceLoading = True, priceError = None,
        localStorage = Map.empty\<rparr>) = Json (JNum (- 5))
   \<and> priceError (fetchSharePrice
       \<lparr>numberToString = (\<lambda>x. ''-5''), otherToString = (\<lambda>v. Some ''abc'')\<rparr> 1700000000000
       (Response 200 (Parsed (JObj [(''price'', JNum (- 5))])))
       \<lparr>sharePrice = Json (JNum 78.5), isPriceLoading = True, priceError = None,
        localStorage = Map.empty\<rparr>) = None
   \<and> sharePrice (fetchSharePrice
       \<lparr>numberToString = (\<lambda>x. ''-5''), otherToString = (\<lambda>v. Some ''abc'')\<rparr> 1700000000000
       (Response 200 (Parsed (JObj [(''price'', JStr ''abc'')])))
       \<lparr>sharePrice = Json (JNum 78.5), isPriceLoading = True, priceError = None,
        localStorage = Map.empty\<rparr>) = Json (JStr ''abc'')
   \<and> priceError (fetchSharePrice
       \<lparr>numberToString = (\<lambda>x. ''-5''), otherToString = (\<lambda>v. Some ''abc'')\<rparr> 1700000000000
       (Response 200 (Parsed (JObj [(''price'', JStr ''abc'')])))
       \<lparr>sharePrice = Json (JNum 78.5), isPriceLoading = True, priceError = None,
        localStorage = Map.empty\<rparr>) = None"
  by (simp add: fetchSharePrice_def ok_def priceToString_def)

text \<open>
  Claim C3, amended. Every failure of the fetch sets the share price to the fallback 27
  and the error notice, whatever the price was before, and writes nothing to the store.
  The failures are: a rejected request, a status outside 200 to 299, a body that cannot
  be read or is not JSON, a body that is \<^verbatim>\<open>null\<close> or has no price field, a price field
  that is falsy (\<^verbatim>\<open>null\<close>, \<^verbatim>\<open>false\<close>, 0, the empty string), and a truthy price whose
  \<^verbatim>\<open>toString\<close> cannot be called. In every other case, that is when the response is ok
  and its JSON body has a truthy price field, the fetch succeeds: the share price is
  that field, as received, no notice is set, and the price and the time are written to
  the store. So the fetch succeeds exactly for an ok response with a truthy price; in
  particular it succeeds with the number when the price is a number above 0.
\<close>

theorem fetch_fallback:
  "((outcome = NetworkError
       \<or> (\<exists>status b. outcome = Response status b
             \<and> (\<not> ok status \<or> b = Unreadable \<or> b = Malformed))
       \<or> (\<exists>status data. outcome = Response status (Parsed data)
             \<and> (getProp data ''price'' = TypeError
                  \<or> getProp data ''price'' = Undefined
                  \<or> (\<exists>p. getProp data ''price'' = Value p
                        \<and> (\<not> truthy p \<or> priceToString env p = None)))))
      \<longrightarrow> fetchSharePrice env fetchedAt outcome st
            = st\<lparr>isPriceLoading := False, priceError := Some ''Could not fetch live price.'',
                 sharePrice := Json (JNum 27)\<rparr>)
   \<and> (outcome = Response status (Parsed data) \<and> ok status
        \<and> getProp data ''price'' = Value p \<and> truthy p \<and> priceToString env p = Some s
      \<longrightarrow> fetchSharePrice env fetchedAt outcome st
            = st\<lparr>isPriceLoading := False, priceError := None, sharePrice := Json p,
                 localStorage := (localStorage st)
                   (CACHE_KEY_PRICE \<mapsto> s, CACHE_KEY_TIMESTAMP \<mapsto> showInt fetchedAt)\<rparr>)
   \<and> (priceError (fetchSharePrice env fetchedAt outcome st) = None \<longleftrightarrow>
        (\<exists>status data p s. outcome = Response status (Parsed data) \<and> ok status
           \<and> getProp data ''price'' = Value p \<and> truthy p \<and> priceToString env p = Some s))
   \<and> (outcome = Response status (Parsed data) \<and> ok status
        \<and> getProp data ''price'' = Value (JNum x) \<and> 0 < x
      \<longrightarrow> sharePrice (fetchSharePrice env fetchedAt outcome st) = Json (JNum x)
          \<and> priceError (fetchSharePrice env fetchedAt outcome st) = None)"
proof -
  let ?fails = "outcome = NetworkError
       \<or> (\<exists>status b. outcome = Response status b
             \<and> (\<not> ok status \<or> b = Unreadable \<or> b = Malformed))
       \<or> (\<exists>status data. outcome = Response status (Parsed data)
             \<and> (getProp data ''price'' = TypeError
                  \<or> getProp data ''price'' = Undefined
                  \<or> (\<exists>p. getProp data ''price'' = Value p
                        \<and> (\<not> truthy p \<or> priceToString env p = None))))"
  let ?succeeds = "\<exists>status data p s. outcome = Response status (Parsed data) \<and> ok status
           \<and> getProp data ''price'' = Value p \<and> truthy p \<and> priceToString env p = Some s"
  have a: "?fails \<longrightarrow> fetchSharePrice env fetchedAt outcome st
            = st\<lparr>isPriceLoading := False, priceError := Some ''Could not fetch live price.'',
                 sharePrice := Json (JNum 27)\<rparr>"
    using fetchSharePrice_failure [of outcome env fetchedAt st] by blast
  have b: "outcome = Response status (Parsed data) \<and> ok status
        \<and> getProp data ''price'' = Value p \<and> truthy p \<and> priceToString env p = Some s
      \<longrightarrow> fetchSharePrice env fetchedAt outcome st
            = st\<lparr>isPriceLoading := False, priceError := None, sharePrice := Json p,
                 localStorage := (localStorage st)
                   (CACHE_KEY_PRICE \<mapsto> s, CACHE_KEY_TIMESTAMP \<mapsto> showInt fetchedAt)\<rparr>"
    for status data p s
    using fetchSharePrice_success [of outcome status data p env s fetchedAt st] by blast
  have split: "?fails \<or> ?succeeds"
  proof (cases outcome)
    case NetworkError
    then show ?thesis by simp
  next
    case (Response status b)
    show ?thesis
    proof (cases "ok status")
      case False
      with Response show ?thesis by simp
    next
      case True
      show ?thesis
      proof (cases b)
        case Unreadable
        with Response show ?thesis by simp
      next
        case Malformed
        with Response show ?thesis by simp
      next
        case (Parsed data)
        show ?thesis
        proof (cases "getProp data ''price''")
          case TypeError
          with Response Parsed show ?thesis by simp
        next
          case Undefined
          with Response Parsed show ?thesis by simp
        next
          case (Value p)
          show ?thesis
          proof (cases "truthy p")
            case False
            with Response Parsed Value show ?thesis by simp
          next
            case tp: True
            show ?thesis
            proof (cases "priceToString env p")
              case None
              with Response Parsed Value show ?thesis by simp
            next
              case (Some s)
              with Response Parsed Value True tp show ?thesis by simp
            qed
          qed
        qed
      qed
    qed
  qed
  have c: "priceError (fetchSharePrice env fetchedAt outcome st) = None \<longleftrightarrow> ?succeeds"
  proof
    assume n: "priceError (fetchSharePrice env fetchedAt outcome st) = None"
    show ?succeeds
    proof (rule ccontr)
      assume "\<not> ?succeeds"
      with split have ?fails by blast
      with a have "fetchSharePrice env fetchedAt outcome st
            = st\<lparr>isPriceLoading := False, priceError := Some ''Could not fetch live price.'',
                 sharePrice := Json (JNum 27)\<rparr>"
        by (rule mp)
      then have "priceError (fetchSharePrice env fetchedAt outcome st)
                     = Some ''Could not fetch live price.''"
        by simp
      with n show False by simp
    qed
  next
    assume ?succeeds
    then obtain status data p s where "outcome = Response status (Parsed data) \<and> ok status
        \<and> getProp data ''price'' = Value p \<and> truthy p \<and> priceToString env p = Some s"
      by blast
    with b [of status data p s]
    show "priceError (fetchSharePrice env fetchedAt outcome st) = None"
      by simp
  qed
  have d: "outcome = Response status (Parsed data) \<and> ok status
        \<and> getProp data ''price'' = Value (JNum x) \<and> 0 < x
      \<longrightarrow> sharePrice (fetchSharePrice env fetchedAt outcome st) = Json (JNum x)
          \<and> priceError (fetchSharePrice env fetchedAt outcome st) = None"
    using b [of status data "JNum x" "numberToString env x"]
    by (simp add: priceToString_number)
  show ?thesis
    using a b [of status data p s] c d by blast
qed

theorem fetch_fallback_witness:
  "fetchSharePrice
       \<lparr>numberToString = (\<lambda>x. ''27.31''), otherToString = (\<lambda>v. None)\<rparr> 1700000000000
       (Response 500 (Parsed (JObj [(''error'', JStr ''Received invalid price data.'')])))
       \<lparr>sharePrice = Json (JNum 78.5), isPriceLoading = True, priceError = None,
        localStorage = Map.empty\<rparr>
     = \<lparr>sharePrice = Json (JNum 27), isPriceLoading = False,
        priceError = Some ''Could not fetch live price.'', localStorage = Map.empty\<rparr>
   \<and> fetchSharePrice
       \<lparr>numberToString = (\<lambda>x. ''27.31''), otherToString = (\<lambda>v. None)\<rparr> 1700000000000
       (Response 200 (Parsed (JObj [(''price'', JNum 27.31)])))
       \<lparr>sharePrice = Json (JNum 78.5), isPriceLoading = True, priceError = None,
        localStorage = Map.empty\<rparr>
     = \<lparr>sharePrice = Json (JNum 27.31), isPriceLoading = False, priceError = None,
        localStorage = [CACHE_KEY_PRICE \<mapsto> ''27.31'',
                        CACHE_KEY_TIMESTAMP \<mapsto> showInt 1700000000000]\<rparr>
   \<and> fetchSharePrice
       \<lparr>numberToString = (\<lambda>x. ''27.31''), otherToString = (\<lambda>v. None)\<rparr> 1700000000000
       (Response 200 (Parsed (JObj [(''price'', JNull)])))
       \<lparr>sharePrice = Json (JNum 78.5), isPriceLoading = True, priceError = None,
        localStorage = Map.empty\<rparr>
     = \<lparr>sharePrice = Json (JNum 27), isPriceLoading = False,
        priceError = Some ''Could not fetch live price.'', localStorage = Map.empty\<rparr>"
  using fetch_fallback
    [where outcome = "Response 500 (Parsed (JObj [(''error'', JStr ''Received invalid price data.'')]))"
       and env = "\<lparr>numberToString = (\<lambda>x. ''27.31''), otherToString = (\<lambda>v. None)\<rparr>"
       and fetchedAt = 1700000000000
       and st = "\<lparr>sharePrice = Json (JNum 78.5), isPriceLoading = True, priceError = None,
                  localStorage = Map.empty\<rparr>"]
    fetch_fallback
    [where outcome = "Response 200 (Parsed (JObj [(''price'', JNum 27.31)]))"
       and status = 200 and data = "JObj [(''price'', JNum 27.31)]"
       and p = "JNum 27.31" and s = "''27.31''" and x = "27.31"
       and env = "\<lparr>numberToString = (\<lambda>x. ''27.31''), otherToString = (\<lambda>v. None)\<rparr>"
       and fetchedAt = 1700000000000
       and st = "\<lparr>sharePrice = Json (JNum 78.5), isPriceLoading = True, priceError = None,
                  localStorage = Map.empty\<rparr>"]
  by (simp add: fetchSharePrice_def fetchFailed_def ok_def priceToString_def)

text \<open>
  The endpoint of the repository sends a price only when its key is configured and the
  provider's answer is ok, parses, and has a member \<^verbatim>\<open>c\<close> that is a number above 0.
  When that number is finite the browser receives it with the status 200. The positive
  infinity passes the handler's test too, is written as \<^verbatim>\<open>null\<close>, and the browser falls
  back. In every other case the handler answers with a failing status. Through this
  endpoint the fetch therefore succeeds exactly when the provider supplies a finite
  number above 0, and with that number.
\<close>

lemma handler_supplied:
  assumes "apiKey \<noteq> None" and "apiKey \<noteq> Some []" and "0 < x"
    and "upstream = Response status (Parsed data)" and "ok status"
    and "getProp data ''c'' = Value (JNum x)"
  shows "deliver (handler apiKey upstream)
           = Response 200 (Parsed (JObj [(''price'', JNum x)]))"
  using assms by (auto simp add: handler_def deliver_def)

lemma handler_not_supplied:
  assumes "\<not> (\<exists>status data x. apiKey \<noteq> None \<and> apiKey \<noteq> Some [] \<and> 0 < x
               \<and> upstream = Response status (Parsed data) \<and> ok status
               \<and> getProp data ''c'' = Value (JNum x))"
  shows "(\<exists>status b. deliver (handler apiKey upstream) = Response status b \<and> \<not> ok status)
       \<or> deliver (handler apiKey upstream) = Response 200 (Parsed (JObj [(''price'', JNull)]))"
  using assms
  by (auto simp add: handler_def deliver_def ok_def errorBody_def
      split: fetch_outcome.splits http_body.splits property.splits json.splits)

lemma getProp_price: "getProp (JObj [(''price'', v)]) ''price'' = Value v"
  by simp

lemma endpoint_pipeline:
  "(\<exists>status data x. apiKey \<noteq> None \<and> apiKey \<noteq> Some [] \<and> 0 < x
       \<and> upstream = Response status (Parsed data) \<and> ok status
       \<and> getProp data ''c'' = Value (JNum x)
       \<and> sharePrice (fetchSharePrice env fetchedAt (deliver (handler apiKey upstream)) st)
           = Json (JNum x)
       \<and> priceError (fetchSharePrice env fetchedAt (deliver (handler apiKey upstream)) st)
           = None)
   \<or> ((\<nexists>status data x. apiKey \<noteq> None \<and> apiKey \<noteq> Some [] \<and> 0 < x
          \<and> upstream = Response status (Parsed data) \<and> ok status
          \<and> getProp data ''c'' = Value (JNum x))
       \<and> sharePrice (fetchSharePrice env fetchedAt (deliver (handler apiKey upstream)) st)
           = Json (JNum 27)
       \<and> priceError (fetchSharePrice env fetchedAt (deliver (handler apiKey upstream)) st)
           = Some ''Could not fetch live price.'')"
proof (cases "\<exists>status data x. apiKey \<noteq> None \<and> apiKey \<noteq> Some [] \<and> 0 < x
               \<and> upstream = Response status (Parsed data) \<and> ok status
               \<and> getProp data ''c'' = Value (JNum x)")
  case True
  then obtain status data x where k: "apiKey \<noteq> None" "apiKey \<noteq> Some []" "0 < x"
      "upstream = Response status (Parsed data)" "ok status"
      "getProp data ''c'' = Value (JNum x)"
    by blast
  have d: "deliver (handler apiKey upstream) = Response 200 (Parsed (JObj [(''price'', JNum x)]))"
    by (rule handler_supplied [OF k])
  have "ok 200" by (simp add: ok_def)
  moreover have "truthy (JNum x)" using k(3) by simp
  ultimately have "fetchSharePrice env fetchedAt (deliver (handler apiKey upstream)) st
      = st\<lparr>isPriceLoading := False, priceError := None, sharePrice := Json (JNum x),
           localStorage := (localStorage st)
             (CACHE_KEY_PRICE \<mapsto> numberToString env x,
              CACHE_KEY_TIMESTAMP \<mapsto> showInt fetchedAt)\<rparr>"
    using fetchSharePrice_success [OF d _ getProp_price _ priceToString_number] by blast
  then have "sharePrice (fetchSharePrice env fetchedAt (deliver (handler apiKey upstream)) st)
               = Json (JNum x)"
    and "priceError (fetchSharePrice env fetchedAt (deliver (handler apiKey upstream)) st) = None"
    by simp_all
  with k show ?thesis by blast
next
  case False
  from handler_not_supplied [OF False]
  have "fetchSharePrice env fetchedAt (deliver (handler apiKey upstream)) st
          = st\<lparr>isPriceLoading := False, priceError := Some ''Could not fetch live price.'',
               sharePrice := Json (JNum 27)\<rparr>"
  proof
    assume "\<exists>status b. deliver (handler apiKey upstream) = Response status b \<and> \<not> ok status"
    then show ?thesis
      by (intro fetchSharePrice_failure) blast
  next
    assume n: "deliver (handler apiKey upstream)
                 = Response 200 (Parsed (JObj [(''price'', JNull)]))"
    have "getProp (JObj [(''price'', JNull)]) ''price'' = Value JNull \<and> \<not> truthy JNull"
      by simp
    with n show ?thesis
      by (intro fetchSharePrice_failure) blast
  qed
  then have "sharePrice (fetchSharePrice env fetchedAt (deliver (handler apiKey upstream)) st)
               = Json (JNum 27)"
    and "priceError (fetchSharePrice env fetchedAt (deliver (handler apiKey upstream)) st)
               = Some ''Could not fetch live price.''"
    by simp_all
  with False show ?thesis by blast
qed

lemma endpoint_overflow:
  "deliver (handler (Some ''key'') (Response 200 (Parsed (JObj [(''c'', JInfinity True)]))))
     = Response 200 (Parsed (JObj [(''price'', JNull)]))"
  by (simp add: handler_def deliver_def ok_def)

subsection \<open>Price cache\<close>

lemma cacheDecision_absent:
  assumes "store CACHE_KEY_PRICE = None \<or> store CACHE_KEY_PRICE = Some []
           \<or> store CACHE_KEY_TIMESTAMP = None \<or> store CACHE_KEY_TIMESTAMP = Some []
           \<or> (\<exists>s. store CACHE_KEY_TIMESTAMP = Some s \<and> parseInt10 s = None)"
  shows "cacheDecision toEastern now store = FetchFresh"
  using assms by (auto simp add: cacheDecision_def Let_def split: option.splits)

lemma fetchSharePrice_sharePrice_independent:
  "sharePrice (fetchSharePrice env fetchedAt outcome st)
     = sharePrice (fetchSharePrice env fetchedAt outcome st')"
  by (simp add: fetchSharePrice_def fetchFailed_def Let_def
      split: fetch_outcome.splits http_body.splits property.splits option.splits)

text \<open>
  Claim C6 (as stated: an entry whose price or timestamp is missing or does not parse as
  a number is treated as absent). A price string that does not parse is not detected:
  with the price item \<^verbatim>\<open>abc\<close> and a timestamp one minute old, \<^verbatim>\<open>parseFloat\<close> gives
  \<^verbatim>\<open>NaN\<close>, the entry counts as fresh, the share price is set to \<^verbatim>\<open>NaN\<close> and no
  fetch is made (the response that a fetch would have brought is not used, and no error
  is set).
\<close>

theorem cache_unparsable_price_counterexample:
  "parseFloat ''abc'' = NaN
   \<and> cacheDecision (\<lambda>t. Converted (EasternTime 2 10 0)) 1700000060000
        [CACHE_KEY_PRICE \<mapsto> ''abc'', CACHE_KEY_TIMESTAMP \<mapsto> ''1700000000000'']
       = UseCached NaN
   \<and> managePriceFetch \<lparr>numberToString = (\<lambda>x. ''27.31''), otherToString = (\<lambda>v. None)\<rparr>
        (\<lambda>t. Converted (EasternTime 2 10 0)) 1700000060000 1700000061000
        (Response 200 (Parsed (JObj [(''price'', JNum 27.31)])))
        \<lparr>sharePrice = Json (JNum 78.5), isPriceLoading = True, priceError = None,
         localStorage = [CACHE_KEY_PRICE \<mapsto> ''abc'', CACHE_KEY_TIMESTAMP \<mapsto> ''1700000000000'']\<rparr>
       = \<lparr>sharePrice = NaN, isPriceLoading = False, priceError = None,
          localStorage = [CACHE_KEY_PRICE \<mapsto> ''abc'', CACHE_KEY_TIMESTAMP \<mapsto> ''1700000000000'']\<rparr>"
proof -
  have k: "CACHE_KEY_PRICE \<noteq> CACHE_KEY_TIMESTAMP"
    by (simp add: CACHE_KEY_PRICE_def CACHE_KEY_TIMESTAMP_def)
  have v: "isValid 1700000000000 1700000060000 b" for b
    by (simp add: isValid_def CACHE_DURATION_TRADING_MIN_def CACHE_DURATION_CLOSED_HRS_def)
  have d: "cacheDecision (\<lambda>t. Converted (EasternTime 2 10 0)) 1700000060000
        [CACHE_KEY_PRICE \<mapsto> ''abc'', CACHE_KEY_TIMESTAMP \<mapsto> ''1700000000000'']
       = UseCached NaN"
    using k by (simp add: cacheDecision_def parse_examples v)
  show ?thesis
    using d by (simp add: managePriceFetch_def parse_examples)
qed

text \<open>
  Claim C6, amended. For every state of the store, when the price item or the timestamp
  item is missing or is the empty string, or the timestamp item does not parse as a
  number, the entry is treated like an absent one: a fetch is made, the resulting state
  is the one the fetch produces, and the share price is the one the fetch produces from
  an empty store, so the stored value is not used.
\<close>

theorem cache_absent_or_unreadable:
  assumes "localStorage st CACHE_KEY_PRICE = None \<or> localStorage st CACHE_KEY_PRICE = Some []
           \<or> localStorage st CACHE_KEY_TIMESTAMP = None
           \<or> localStorage st CACHE_KEY_TIMESTAMP = Some []
           \<or> (\<exists>s. localStorage st CACHE_KEY_TIMESTAMP = Some s \<and> parseInt10 s = None)"
  shows "cacheDecision toEastern now (localStorage st) = FetchFresh
       \<and> managePriceFetch env toEastern now fetchedAt outcome st
           = fetchSharePrice env fetchedAt outcome st
       \<and> sharePrice (managePriceFetch env toEastern now fetchedAt outcome st)
           = sharePrice (fetchSharePrice env fetchedAt outcome
               (st\<lparr>localStorage := Map.empty\<rparr>))"
proof -
  have d: "cacheDecision toEastern now (localStorage st) = FetchFresh"
    by (rule cacheDecision_absent [OF assms])
  then have m: "managePriceFetch env toEastern now fetchedAt outcome st
                  = fetchSharePrice env fetchedAt outcome st"
    by (simp add: managePriceFetch_def)
  show ?thesis
    using d m fetchSharePrice_sharePrice_independent [of env fetchedAt outcome st]
    by simp
qed

theorem cache_absent_or_unreadable_witness:
  "(\<exists>s. [CACHE_KEY_PRICE \<mapsto> ''78.5'', CACHE_KEY_TIMESTAMP \<mapsto> ''abc''] CACHE_KEY_TIMESTAMP = Some s
        \<and> parseInt10 s = None)
   \<and> sharePrice (managePriceFetch \<lparr>numberToString = (\<lambda>x. ''27.31''), otherToString = (\<lambda>v. None)\<rparr>
        (\<lambda>t. Converted (EasternTime 2 10 0)) 1700000060000 1700000061000
        (Response 200 (Parsed (JObj [(''price'', JNum 27.31)])))
        \<lparr>sharePrice = Json (JNum 78.5), isPriceLoading = True, priceError = None,
         localStorage = [CACHE_KEY_PRICE \<mapsto> ''78.5'', CACHE_KEY_TIMESTAMP \<mapsto> ''abc'']\<rparr>)
       = Json (JNum 27.31)"
proof -
  have h: "\<exists>s. [CACHE_KEY_PRICE \<mapsto> ''78.5'', CACHE_KEY_TIMESTAMP \<mapsto> ''abc''] CACHE_KEY_TIMESTAMP = Some s
        \<and> parseInt10 s = None"
    by (simp add: parse_examples)
  show ?thesis
    using h cache_absent_or_unreadable
      [where st = "\<lparr>sharePrice = Json (JNum 78.5), isPriceLoading = True, priceError = None,
         localStorage = [CACHE_KEY_PRICE \<mapsto> ''78.5'', CACHE_KEY_TIMESTAMP \<mapsto> ''abc'']\<rparr>"
        and toEastern = "\<lambda>t. Converted (EasternTime 2 10 0)" and now = 1700000060000
        and fetchedAt = 1700000061000
        and outcome = "Response 200 (Parsed (JObj [(''price'', JNum 27.31)]))"
        and env = "\<lparr>numberToString = (\<lambda>x. ''27.31''), otherToString = (\<lambda>v. None)\<rparr>"]
    by (simp add: fetchSharePrice_def ok_def priceToString_def)
qed

end
